theory Spec2Isabelle
  imports Complex_Main "HOL-Library.Sublist" "HOL-Library.Word"
begin

section \<open>Python values used by pydism\<close>

text \<open>
  A Python \<open>str\<close> is a sequence of Unicode code points, a \<open>bytes\<close> object a sequence of
  octets. Literals of the source are written as HOL strings and turned into code points
  with \<open>ustr\<close>.
\<close>

type_synonym pystr = "nat list"
type_synonym pybytes = "8 word list"

definition ustr :: "string \<Rightarrow> pystr" where
  "ustr s = map of_char s"

text \<open>
  \<open>str.isspace\<close> and the regular expression class \<open>\s\<close> (both are Py_UNICODE_ISSPACE).
\<close>

definition py_isspace :: "nat \<Rightarrow> bool" where
  "py_isspace c = ((9 \<le> c \<and> c \<le> 13) \<or> (28 \<le> c \<and> c \<le> 32) \<or> c = 133 \<or> c = 160
     \<or> c = 5760 \<or> (8192 \<le> c \<and> c \<le> 8202) \<or> c = 8232 \<or> c = 8233 \<or> c = 8239
     \<or> c = 8287 \<or> c = 12288)"

text \<open>
  The decimal digits: the class \<open>\d\<close> of a pattern on \<open>str\<close>, and the characters \<open>int\<close> and
  \<open>float\<close> read as digits (both are Py_UNICODE_ISDECIMAL, the category Nd). In Unicode
  14.0, the table of Python 3.11, they come in 66 runs of ten consecutive code points,
  zero to nine; \<open>decimal_zeros\<close> lists the zero of each run, the ASCII digits first.
\<close>

definition decimal_zeros :: "nat list" where
  "decimal_zeros =
     [48, 1632, 1776, 1984, 2406, 2534, 2662, 2790, 2918, 3046, 3174, 3302, 3430, 3558,
      3664, 3792, 3872, 4160, 4240, 6112, 6160, 6470, 6608, 6784, 6800, 6992, 7088, 7232,
      7248, 42528, 43216, 43264, 43472, 43504, 43600, 44016, 65296, 66720, 68912, 69734,
      69872, 69942, 70096, 70384, 70736, 70864, 71248, 71360, 71472, 71904, 72016, 72784,
      73040, 73120, 92768, 92864, 93008, 120782, 120792, 120802, 120812, 120822, 123200,
      123632, 125264, 130032]"

fun decimal_in :: "nat list \<Rightarrow> nat \<Rightarrow> nat option" where
  "decimal_in [] c = None"
| "decimal_in (z # zs) c = (if z \<le> c \<and> c \<le> z + 9 then Some (c - z) else decimal_in zs c)"

definition py_decimal :: "nat \<Rightarrow> nat option" where
  "py_decimal c = decimal_in decimal_zeros c"

definition is_digit :: "nat \<Rightarrow> bool" where
  "is_digit c = (py_decimal c \<noteq> None)"

text \<open>
  \<open>str.lower\<close>, on the ASCII letters. The source only asks whether a lowered text contains
  one of its needles, all of them ASCII letters and spaces; the characters outside ASCII
  that \<open>str.lower\<close> changes become characters outside ASCII again, but for the Kelvin sign,
  which becomes \<open>k\<close>, and the dotted capital I, which becomes \<open>i\<close> followed by a combining
  dot: no needle has a \<open>k\<close>, and none has an \<open>i\<close> at its end. So these tests give what they
  give in Python.
\<close>

definition lower_char :: "nat \<Rightarrow> nat" where
  "lower_char c = (if 65 \<le> c \<and> c \<le> 90 then c + 32 else c)"

definition py_lower :: "pystr \<Rightarrow> pystr" where
  "py_lower s = map lower_char s"

text \<open>\<open>needle in hay\<close> on strings: the needle occurs at some position.\<close>

fun py_in :: "pystr \<Rightarrow> pystr \<Rightarrow> bool" where
  "py_in needle [] = (needle = [])"
| "py_in needle (c # cs) = (prefix needle (c # cs) \<or> py_in needle cs)"

text \<open>\<open>str.strip()\<close>: whitespace removed at both ends.\<close>

definition py_strip :: "pystr \<Rightarrow> pystr" where
  "py_strip s = rev (dropWhile py_isspace (rev (dropWhile py_isspace s)))"

text \<open>\<open>sep.join(xs)\<close>.\<close>

fun py_join :: "pystr \<Rightarrow> pystr list \<Rightarrow> pystr" where
  "py_join sep [] = []"
| "py_join sep [x] = x"
| "py_join sep (x # y # ys) = x @ sep @ py_join sep (y # ys)"

text \<open>\<open>s.split(sep)\<close> for a separator of one character.\<close>

fun py_split :: "nat \<Rightarrow> pystr \<Rightarrow> pystr list" where
  "py_split sep [] = [[]]"
| "py_split sep (c # cs) =
     (if c = sep then [] # py_split sep cs
      else (case py_split sep cs of [] \<Rightarrow> [[c]] | w # ws \<Rightarrow> (c # w) # ws))"

text \<open>\<open>str(n)\<close> for an integer.\<close>

fun digits_of :: "nat \<Rightarrow> pystr" where
  "digits_of n = (if n < 10 then [48 + n] else digits_of (n div 10) @ [48 + n mod 10])"

declare digits_of.simps [simp del]

definition py_str_int :: "int \<Rightarrow> pystr" where
  "py_str_int i = (if i < 0 then 45 # digits_of (nat (- i)) else digits_of (nat i))"

subsection \<open>Floats\<close>

text \<open>
  A Python float that \<open>float(text)\<close> can return for an unsigned decimal numeral: a finite
  binary64 value, kept as the rational it denotes, or positive infinity (a numeral of
  more than 308 digits). Comparison is the order of the extended line.
\<close>

datatype pyfloat = Fin rat | PosInf

fun float_le :: "pyfloat \<Rightarrow> pyfloat \<Rightarrow> bool" where
  "float_le (Fin a) (Fin b) = (a \<le> b)"
| "float_le (Fin a) PosInf = True"
| "float_le PosInf (Fin b) = False"
| "float_le PosInf PosInf = True"

fun float_lt :: "pyfloat \<Rightarrow> pyfloat \<Rightarrow> bool" where
  "float_lt (Fin a) (Fin b) = (a < b)"
| "float_lt (Fin a) PosInf = True"
| "float_lt PosInf (Fin b) = False"
| "float_lt PosInf PosInf = False"

text \<open>Truth value of a float in a condition: everything but zero.\<close>

definition float_truthy :: "pyfloat \<Rightarrow> bool" where
  "float_truthy x = (x \<noteq> Fin 0)"

text \<open>Number of binary digits of a positive integer.\<close>

function bitlen :: "int \<Rightarrow> int" where
  "bitlen n = (if n \<le> 0 then 0 else 1 + bitlen (n div 2))"
  by pat_completeness auto
termination
  by (relation "measure nat") auto

declare bitlen.simps [simp del]

definition pow2 :: "int \<Rightarrow> rat" where
  "pow2 k = (if 0 \<le> k then 2 ^ nat k else 1 / 2 ^ nat (- k))"

text \<open>
  The binary64 value nearest to \<open>p / q\<close> (ties to even), as \<open>float\<close> of a numeral and the
  true division of two integers compute it: \<open>e\<close> is the binary exponent of the quotient,
  not below that of the subnormal numbers, and the quotient is rounded to a multiple of
  \<open>2 ^ (e - 52)\<close>; from \<open>2 ^ 1024\<close> on the result is infinite.
\<close>

definition round_binary64 :: "int \<Rightarrow> int \<Rightarrow> pyfloat" where
  "round_binary64 p q =
     (if p = 0 then Fin 0
      else let cand = bitlen p - bitlen q;
               e = (if (if 0 \<le> cand then 2 ^ nat cand * q \<le> p else q \<le> p * 2 ^ nat (- cand))
                    then cand else cand - 1);
               shift = 52 - max e (- 1022);
               num = (if 0 \<le> shift then p * 2 ^ nat shift else p);
               den = (if 0 \<le> shift then q else q * 2 ^ nat (- shift));
               n = num div den;
               r = num mod den;
               m = (if 2 * r < den then n else if den < 2 * r then n + 1
                    else if even n then n else n + 1);
               v = of_int m * pow2 (- shift)
           in if pow2 1024 \<le> v then PosInf else Fin v)"

fun digits_value :: "int \<Rightarrow> pystr \<Rightarrow> int" where
  "digits_value acc [] = acc"
| "digits_value acc (c # cs) =
     digits_value (10 * acc + (case py_decimal c of Some d \<Rightarrow> int d | None \<Rightarrow> 0)) cs"

text \<open>
  \<open>int(text)\<close> for a text of decimal digits. The texts the source passes are cut from a
  chunk of at most 1024 octets, far below the 4300 digits from which \<open>int\<close> refuses a text.
\<close>

definition py_int :: "pystr \<Rightarrow> int" where
  "py_int s = digits_value 0 s"

text \<open>
  \<open>float(text)\<close> for a text of the shape \<open>digits\<close>, \<open>digits.\<close> or \<open>digits.digits\<close>, the
  only shapes the source passes to it.
\<close>

definition py_float :: "pystr \<Rightarrow> pyfloat" where
  "py_float s =
     (let whole = takeWhile is_digit s;
          frac = filter is_digit (dropWhile is_digit s)
      in round_binary64 (digits_value 0 (whole @ frac)) (10 ^ length frac))"


subsection \<open>Regular expressions\<close>

text \<open>
  The two patterns of the source are sequences of single characters and character
  classes under a greedy quantifier. \<open>re_match\<close> is the backtracking matcher of \<open>re\<close> at
  one start position: a quantifier takes as many characters as it can and gives them
  back one at a time when the rest of the pattern fails. The result lists the text each
  item consumed. \<open>re_search\<close> is \<open>re.search\<close>: the start positions from left to right, the
  first match found.
\<close>

datatype regex_item =
    Lit nat
  | Opt "nat \<Rightarrow> bool"
  | Star "nat \<Rightarrow> bool"
  | Plus "nat \<Rightarrow> bool"

fun re_match :: "regex_item list \<Rightarrow> pystr \<Rightarrow> pystr list option" where
  "re_match [] s = Some []"
| "re_match (Lit c # r) [] = None"
| "re_match (Lit c # r) (x # xs) =
     (if x = c then map_option ((#) [x]) (re_match r xs) else None)"
| "re_match (Opt P # r) [] = map_option ((#) []) (re_match r [])"
| "re_match (Opt P # r) (x # xs) =
     (if P x
      then (case re_match r xs of
              Some ms \<Rightarrow> Some ([x] # ms)
            | None \<Rightarrow> map_option ((#) []) (re_match r (x # xs)))
      else map_option ((#) []) (re_match r (x # xs)))"
| "re_match (Star P # r) [] = map_option ((#) []) (re_match r [])"
| "re_match (Star P # r) (x # xs) =
     (if P x
      then (case re_match (Star P # r) xs of
              Some (m # ms) \<Rightarrow> Some ((x # m) # ms)
            | _ \<Rightarrow> map_option ((#) []) (re_match r (x # xs)))
      else map_option ((#) []) (re_match r (x # xs)))"
| "re_match (Plus P # r) [] = None"
| "re_match (Plus P # r) (x # xs) =
     (if P x
      then (case re_match (Star P # r) xs of
              Some (m # ms) \<Rightarrow> Some ((x # m) # ms)
            | _ \<Rightarrow> None)
      else None)"

fun re_search :: "regex_item list \<Rightarrow> pystr \<Rightarrow> pystr list option" where
  "re_search p [] = re_match p []"
| "re_search p (x # xs) =
     (case re_match p (x # xs) of Some ms \<Rightarrow> Some ms | None \<Rightarrow> re_search p xs)"

text \<open>\<open>r'(\d+\.?\d*)%'\<close>; group 1 is what the first three items consumed.\<close>

definition dism_progress_re :: "regex_item list" where
  "dism_progress_re = [Plus is_digit, Opt (\<lambda>c. c = 46), Star is_digit, Lit 37]"

text \<open>\<open>r'(\d+)\s*%'\<close>; group 1 is what the first item consumed.\<close>

definition sfc_progress_re :: "regex_item list" where
  "sfc_progress_re = [Plus is_digit, Star py_isspace, Lit 37]"

text \<open>
  The progress extraction of \<open>run_dism_command\<close> (lines 126 to 129) and of \<open>run_sfc\<close>
  (lines 237 to 240): \<open>None\<close> when the text has no \<open>%\<close> or the pattern matches nowhere.
\<close>

definition dism_progress :: "pystr \<Rightarrow> pyfloat option" where
  "dism_progress line =
     (if py_in [37] line
      then (case re_search dism_progress_re line of
              Some ms \<Rightarrow> Some (py_float (concat (take 3 ms)))
            | None \<Rightarrow> None)
      else None)"

definition sfc_progress :: "pystr \<Rightarrow> int option" where
  "sfc_progress text =
     (if py_in [37] text
      then (case re_search sfc_progress_re text of
              Some ms \<Rightarrow> Some (py_int (concat (take 1 ms)))
            | None \<Rightarrow> None)
      else None)"


section \<open>Console, log and child processes\<close>

text \<open>
  What a run does besides returning: lines printed (\<open>Print\<close>, with the newline \<open>print\<close>
  adds), text written without one (\<open>Write\<close>, for \<open>end=''\<close>) and log records, in order.
\<close>

datatype effect = Print pystr | Write pystr | LogInfo pystr | LogError pystr

text \<open>
  A child process as the runner sees it through \<open>Popen\<close>: the results of the successive
  reads of its output until it has exited, its exit code and how long it lives. \<open>Read []\<close>
  is a read that returns nothing while \<open>poll()\<close> still answers \<open>None\<close> (the child has
  closed its output and runs on); after the last event the read returns nothing and
  \<open>poll()\<close> gives the exit code. A read that raises is \<open>ReadFails\<close> with the message of
  the exception. The items read are code points for a pipe in text mode and octets
  otherwise. A child that never exits has no such finite description; with it the read
  loops of the source do not end.
\<close>

datatype 'a read_event = Read "'a list" | ReadFails pystr

record 'a child =
  reads :: "'a read_event list"
  exit_code :: int
  run_seconds :: nat

datatype 'a spawn = SpawnFails pystr | Spawned "'a child"

text \<open>
  The environment of a run: the path \<open>os.path.join\<close> computes for dism.exe, what the
  n-th call of \<open>Popen\<close> from now will do, how many calls were made, the effects so far,
  and the length of the longest string the interpreter finds memory for.
\<close>

record 'a world =
  dism_path :: pystr
  spawns :: "nat \<Rightarrow> 'a spawn"
  popen_calls :: nat
  trace :: "effect list"
  str_capacity :: nat

datatype exn = TimeoutExpired | PyException pystr

definition emit :: "effect list \<Rightarrow> 'a world \<Rightarrow> 'a world" where
  "emit es w = w\<lparr>trace := trace w @ es\<rparr>"

definition popen :: "'a world \<Rightarrow> (exn + 'a child) \<times> 'a world" where
  "popen w =
     ((case spawns w (popen_calls w) of
         SpawnFails msg \<Rightarrow> Inl (PyException msg)
       | Spawned c \<Rightarrow> Inr c),
      w\<lparr>popen_calls := popen_calls w + 1\<rparr>)"

text \<open>
  \<open>process.wait(timeout=t)\<close> for a process whose \<open>returncode\<close> attribute is \<open>rc\<close>: when
  \<open>poll()\<close> has already recorded the exit code, \<open>wait\<close> returns it at once; otherwise it
  waits for the child and raises \<open>TimeoutExpired\<close> if the child outlives the timeout.
\<close>

definition popen_wait :: "nat \<Rightarrow> 'a child \<Rightarrow> int option \<Rightarrow> exn + int" where
  "popen_wait timeout c rc =
     (case rc of
        Some code \<Rightarrow> Inr code
      | None \<Rightarrow> if run_seconds c \<le> timeout then Inr (exit_code c) else Inl TimeoutExpired)"

section \<open>run_dism_command\<close>

record dism_locals =
  last_progress :: "pyfloat option"
  pause_notified :: bool
  output_lines :: "pystr list"

text \<open>Lines 111 to 113: the local variables at the start of a run.\<close>

definition fresh_locals :: dism_locals where
  "fresh_locals = \<lparr>last_progress = None, pause_notified = False, output_lines = []\<rparr>"

definition pause_notice :: "effect list" where
  "pause_notice =
     [Print (10 # replicate 55 61),
      Print (ustr ''  [NORMAL] Component Store Analysis Phase''),
      Print (ustr ''  DISM is checking thousands of system files.''),
      Print (ustr ''  This typically takes 10-20 minutes.''),
      Print (ustr ''  DO NOT interrupt - progress will resume.''),
      Print (replicate 55 61 @ [10]),
      LogInfo (ustr ''DISM 62.3% component store analysis phase'')]"

definition passed_65_notice :: "effect list" where
  "passed_65_notice =
     [Print (ustr ''[PROGRESS] Component check complete - continuing...''),
      LogInfo (ustr ''DISM passed 65%'')]"

definition at_90_notice :: "effect list" where
  "at_90_notice =
     [Print (ustr ''[PROGRESS] Nearly complete...''),
      LogInfo (ustr ''DISM at 90%'')]"

text \<open>
  Lines 132 to 150: what one progress value does. \<open>last_progress and last_progress < 65.0\<close>
  holds when the stored value is not \<open>None\<close>, is not zero and is below 65.
\<close>

definition progress_update :: "pyfloat \<Rightarrow> dism_locals \<Rightarrow> effect list \<times> dism_locals" where
  "progress_update progress st =
     (if float_le (Fin 62) progress \<and> float_le progress (Fin 63) \<and> \<not> pause_notified st
      then (pause_notice, st\<lparr>pause_notified := True, last_progress := Some progress\<rparr>)
      else if float_le (Fin 65) progress \<and>
              (case last_progress st of None \<Rightarrow> False
               | Some l \<Rightarrow> float_truthy l \<and> float_lt l (Fin 65))
      then (passed_65_notice, st\<lparr>last_progress := Some progress\<rparr>)
      else if float_le (Fin 90) progress \<and>
              (case last_progress st of None \<Rightarrow> False
               | Some l \<Rightarrow> float_truthy l \<and> float_lt l (Fin 90))
      then (at_90_notice, st\<lparr>last_progress := Some progress\<rparr>)
      else ([], st\<lparr>last_progress := Some progress\<rparr>))"

text \<open>
  The progress interpreter run on a sequence of progress values: \<open>progress_update\<close> for
  each value in turn, the effects in order.
\<close>

fun feed_progress :: "pyfloat list \<Rightarrow> dism_locals \<Rightarrow> effect list \<times> dism_locals" where
  "feed_progress [] st = ([], st)"
| "feed_progress (p # ps) st =
     (let (fx, st') = progress_update p st;
          (fx', st'') = feed_progress ps st'
      in (fx @ fx', st''))"

text \<open>The same run, the effects of each value kept apart.\<close>

fun progress_steps :: "pyfloat list \<Rightarrow> dism_locals \<Rightarrow> effect list list" where
  "progress_steps [] st = []"
| "progress_steps (p # ps) st =
     (let (fx, st') = progress_update p st in fx # progress_steps ps st')"

text \<open>Lines 126 to 150: the progress monitoring of one output line.\<close>

definition monitor_line :: "bool \<Rightarrow> pystr \<Rightarrow> dism_locals \<Rightarrow> effect list \<times> dism_locals" where
  "monitor_line is_restore line st =
     (if is_restore
      then (case dism_progress line of
              Some progress \<Rightarrow> progress_update progress st
            | None \<Rightarrow> ([], st))
      else ([], st))"

text \<open>
  Lines 116 to 150, the read loop. The result is the exception a read raised, or the
  \<open>returncode\<close> attribute \<open>poll()\<close> has set when the loop is left.
\<close>

fun dism_read_loop ::
  "bool \<Rightarrow> nat child \<Rightarrow> nat read_event list \<Rightarrow> dism_locals
     \<Rightarrow> (exn + int option) \<times> dism_locals \<times> effect list" where
  "dism_read_loop is_restore c [] st = (Inr (Some (exit_code c)), st, [])"
| "dism_read_loop is_restore c (ReadFails msg # es) st = (Inl (PyException msg), st, [])"
| "dism_read_loop is_restore c (Read l # es) st =
     (if l = [] then dism_read_loop is_restore c es st
      else let line = py_strip l;
               (fx, st') = monitor_line is_restore line
                             (st\<lparr>output_lines := output_lines st @ [line]\<rparr>);
               (r, st'', fx') = dism_read_loop is_restore c es st'
           in (r, st'', Print line # fx @ fx'))"

definition restore_guide :: "effect list" where
  "restore_guide =
     [Print (10 # replicate 55 61),
      Print (ustr ''  DISM RestoreHealth Progress Guide''),
      Print (replicate 55 61),
      Print (ustr ''  0-60%:   Initial scan and analysis''),
      Print (ustr ''  62.3%:   Component store check (may pause 10-20 min)''),
      Print (ustr ''  65-100%: Repair and cleanup operations''),
      Print [],
      Print (ustr ''  The pause at 62.3% is NORMAL - please be patient!''),
      Print (replicate 55 61),
      LogInfo (ustr ''DISM RestoreHealth started - 62.3% pause is normal'')]"

text \<open>Lines 160 to 166: the result lines of the log.\<close>

definition log_key_results :: "pystr \<Rightarrow> effect list" where
  "log_key_results output_text =
     (if py_in (ustr ''No component store corruption detected'') output_text
      then [LogInfo (ustr ''Result: System is healthy - no corruption detected'')]
      else if py_in (ustr ''repairable'') (py_lower output_text)
      then [LogInfo (ustr ''Result: Component store has repairable corruption'')]
      else if py_in (ustr ''successfully repaired'') (py_lower output_text)
              \<or> py_in (ustr ''completed successfully'') (py_lower output_text)
      then [LogInfo (ustr ''Result: Operation completed successfully'')]
      else [])"

text \<open>
  The body of the \<open>try\<close> (lines 80 to 170). \<open>process.stdout\<close> is the pipe asked for with
  \<open>stdout=subprocess.PIPE\<close>, so the test of line 115 holds and the loop always runs. The
  value returned is the success flag and, with \<open>capture_output\<close>, the output text.
\<close>

definition dism_try ::
  "pystr list \<Rightarrow> bool \<Rightarrow> bool \<Rightarrow> nat world
     \<Rightarrow> (exn + bool \<times> pystr option) \<times> nat world" where
  "dism_try command_args is_restore capture_output w0 =
     (let full_command = dism_path w0 # command_args;
          w1 = emit ([Print (10 # ustr ''Executing: '' @ py_join [32] full_command),
                      LogInfo (ustr ''DISM Command: '' @ py_join [32] full_command)]
                     @ (if is_restore then restore_guide else [])) w0;
          (spawned, w2) = popen w1
      in case spawned of
           Inl e \<Rightarrow> (Inl e, w2)
         | Inr c \<Rightarrow>
             let w3 = emit [Print (10 # ustr ''DISM Output:''), Print (replicate 50 45)] w2;
                 (r, st, fx) = dism_read_loop is_restore c (reads c) fresh_locals;
                 w4 = emit fx w3
             in case r of
                  Inl e \<Rightarrow> (Inl e, w4)
                | Inr rc \<Rightarrow>
                    (case popen_wait 3600 c rc of
                       Inl e \<Rightarrow> (Inl e, w4)
                     | Inr return_code \<Rightarrow>
                         let output_text = py_join [10] (output_lines st);
                             w5 = emit ([Print (replicate 50 45),
                                         Print (ustr ''Completed with return code: ''
                                                @ py_str_int return_code),
                                         LogInfo (ustr ''DISM completed with return code: ''
                                                  @ py_str_int return_code)]
                                        @ log_key_results output_text) w4
                         in (Inr (return_code = 0,
                                  if capture_output then Some output_text else None), w5)))"

text \<open>The function with its two handlers (lines 172 to 183).\<close>

definition run_dism_command ::
  "pystr list \<Rightarrow> bool \<Rightarrow> bool \<Rightarrow> nat world \<Rightarrow> (bool \<times> pystr option) \<times> nat world" where
  "run_dism_command command_args is_restore capture_output w =
     (case dism_try command_args is_restore capture_output w of
        (Inr result, w') \<Rightarrow> (result, w')
      | (Inl TimeoutExpired, w') \<Rightarrow>
          ((False, if capture_output then Some (ustr ''Timeout'') else None),
           emit [Print (ustr ''[ERROR] Operation timed out after 1 hour''),
                 LogError (ustr ''DISM timed out'')] w')
      | (Inl (PyException e), w') \<Rightarrow>
          ((False, if capture_output then Some e else None),
           emit [Print (ustr ''[ERROR] '' @ e),
                 LogError (ustr ''DISM failed: '' @ e)] w'))"

definition scan_health :: "nat world \<Rightarrow> (bool \<times> pystr option) \<times> nat world" where
  "scan_health w =
     run_dism_command [ustr ''/Online'', ustr ''/Cleanup-Image'', ustr ''/ScanHealth'']
       False True
       (emit [Print (10 # ustr ''[SCAN] Scanning Windows System Health...''),
              Print (ustr ''This checks for corruption but does not repair.'')] w)"

definition restore_health :: "nat world \<Rightarrow> (bool \<times> pystr option) \<times> nat world" where
  "restore_health w =
     run_dism_command [ustr ''/Online'', ustr ''/Cleanup-Image'', ustr ''/RestoreHealth'']
       True False
       (emit [Print (10 # ustr ''[REPAIR] Repairing Windows System Health...''),
              Print (ustr ''This will scan AND repair any corruption found.'')] w)"


section \<open>run_sfc\<close>

text \<open>
  \<open>chunk.decode('utf-16-le', errors='ignore')\<close>: two octets make a 16-bit unit, low
  octet first; a high surrogate followed by a low one makes a code point beyond the
  basic plane; a low surrogate alone or a high surrogate before another unit is
  skipped; a high surrogate or a single octet at the end of the chunk is dropped with
  whatever follows. With \<open>errors='ignore'\<close> the decoder raises no \<open>UnicodeDecodeError\<close>,
  so the handler of line 230 with its UTF-8 decoding is never entered and has no
  counterpart here.
\<close>

fun utf16le_decode_ignore :: "pybytes \<Rightarrow> pystr" where
  "utf16le_decode_ignore (b0 # b1 # rest) =
     (let u = unat b0 + 256 * unat b1
      in if u < 55296 \<or> 57343 < u then u # utf16le_decode_ignore rest
         else if 56320 \<le> u then utf16le_decode_ignore rest
         else (case rest of
                 c0 # c1 # rest' \<Rightarrow>
                   (let u2 = unat c0 + 256 * unat c1
                    in if 56320 \<le> u2 \<and> u2 \<le> 57343
                       then (65536 + (u - 55296) * 1024 + (u2 - 56320))
                              # utf16le_decode_ignore rest'
                       else utf16le_decode_ignore rest)
               | _ \<Rightarrow> []))"
| "utf16le_decode_ignore _ = []"

text \<open>Lines 227 to 234: a chunk decoded and cleaned of null characters.\<close>

definition read_chunk_text :: "pybytes \<Rightarrow> pystr" where
  "read_chunk_text chunk = filter (\<lambda>c. c \<noteq> 0) (utf16le_decode_ignore chunk)"

text \<open>
  \<open>a / b\<close> on integers with \<open>b\<close> positive: the nearest float, or \<open>OverflowError\<close>.
  \<open>int(x)\<close> on a float cuts the fraction off.
\<close>

definition int_truediv :: "int \<Rightarrow> int \<Rightarrow> exn + rat" where
  "int_truediv a b =
     (case round_binary64 \<bar>a\<bar> b of
        PosInf \<Rightarrow> Inl (PyException (ustr ''integer division result too large for a float''))
      | Fin v \<Rightarrow> Inr (if a < 0 then - v else v))"

definition py_trunc :: "rat \<Rightarrow> int" where
  "py_trunc v = (if 0 \<le> v then \<lfloor>v\<rfloor> else \<lceil>v\<rceil>)"

text \<open>The format \<open>{percent:3d}\<close>: right-aligned in three columns.\<close>

definition py_format_3d :: "int \<Rightarrow> pystr" where
  "py_format_3d i = replicate (3 - length (py_str_int i)) 32 @ py_str_int i"

text \<open>
  \<open>ch * n\<close> for a string of one character: empty when \<open>n\<close> is not positive;
  \<open>OverflowError\<close> when \<open>n\<close> does not fit the index type of 63 bits; \<open>MemoryError\<close>, whose
  text is empty, when \<open>n\<close> is beyond the longest string the interpreter finds memory for.
\<close>

definition py_repeat :: "nat \<Rightarrow> nat \<Rightarrow> int \<Rightarrow> exn + pystr" where
  "py_repeat capacity ch n =
     (if n \<le> 0 then Inr []
      else if 2 ^ 63 \<le> n
      then Inl (PyException (ustr ''cannot fit '' @ [39] @ ustr ''int'' @ [39]
                             @ ustr '' into an index-sized integer''))
      else if int capacity < n then Inl (PyException [])
      else Inr (replicate (nat n) ch))"

text \<open>Lines 243 to 246, the progress bar.\<close>

definition progress_bar :: "nat \<Rightarrow> int \<Rightarrow> exn + effect list" where
  "progress_bar capacity percent =
     (let bar_width = 50
      in case int_truediv (bar_width * percent) 100 of
           Inl e \<Rightarrow> Inl e
         | Inr q \<Rightarrow>
             let filled = py_trunc q
             in case py_repeat capacity 61 filled of
                  Inl e \<Rightarrow> Inl e
                | Inr equals \<Rightarrow>
                    (case py_repeat capacity 32 (bar_width - filled) of
                       Inl e \<Rightarrow> Inl e
                     | Inr blanks \<Rightarrow>
                         Inr [Write ([13, 91] @ equals @ blanks @ [93, 32]
                                     @ py_format_3d percent @ [37])]))"

record sfc_locals =
  last_percent :: int
  result_buffer :: pystr

text \<open>
  \<open>read(1024)\<close> returns at most 1024 octets: what the child delivers at once is read in
  pieces of that length, the rest by the next calls.
\<close>

function pieces :: "nat \<Rightarrow> 'a list \<Rightarrow> 'a list list" where
  "pieces n xs = (if n = 0 \<or> length xs \<le> n then [xs] else take n xs # pieces n (drop n xs))"
  by pat_completeness auto
termination
  by (relation "measure (\<lambda>(n, xs). length xs)") auto

declare pieces.simps [simp del]

fun reads_of_1024 :: "8 word read_event list \<Rightarrow> 8 word read_event list" where
  "reads_of_1024 [] = []"
| "reads_of_1024 (Read chunk # es) = map Read (pieces 1024 chunk) @ reads_of_1024 es"
| "reads_of_1024 (ReadFails msg # es) = ReadFails msg # reads_of_1024 es"

text \<open>Lines 221 to 250, the read loop.\<close>

fun sfc_read_loop ::
  "nat \<Rightarrow> 8 word child \<Rightarrow> 8 word read_event list \<Rightarrow> sfc_locals
     \<Rightarrow> (exn + int option) \<times> sfc_locals \<times> effect list" where
  "sfc_read_loop capacity c [] st = (Inr (Some (exit_code c)), st, [])"
| "sfc_read_loop capacity c (ReadFails msg # es) st = (Inl (PyException msg), st, [])"
| "sfc_read_loop capacity c (Read chunk # es) st =
     (if chunk = [] then sfc_read_loop capacity c es st
      else let text = read_chunk_text chunk
           in if py_in [37] text
              then (case sfc_progress text of
                      Some percent \<Rightarrow>
                        if percent \<noteq> last_percent st
                        then (case progress_bar capacity percent of
                                Inl e \<Rightarrow> (Inl e, st, [])
                              | Inr fx \<Rightarrow>
                                  let (r, st', fx') =
                                        sfc_read_loop capacity c es
                                          (st\<lparr>last_percent := percent\<rparr>)
                                  in (r, st', fx @ fx'))
                        else sfc_read_loop capacity c es st
                    | None \<Rightarrow> sfc_read_loop capacity c es st)
              else sfc_read_loop capacity c es
                     (st\<lparr>result_buffer := result_buffer st @ text\<rparr>))"

text \<open>Lines 258 to 263: the lines of the buffer that are printed and kept.\<close>

fun sfc_final_lines :: "pystr list \<Rightarrow> effect list \<times> pystr" where
  "sfc_final_lines [] = ([], [])"
| "sfc_final_lines (l # ls) =
     (let line = py_strip l;
          (fx, final_result) = sfc_final_lines ls
      in if line \<noteq> [] \<and> \<not> py_in (ustr ''verification'') (py_lower line)
            \<and> \<not> py_in (ustr ''complete'') (py_lower line)
         then (Print line # fx, line @ [32] @ final_result)
         else (fx, final_result))"

text \<open>Lines 272 to 279: the result line of the log.\<close>

definition sfc_log_result :: "pystr \<Rightarrow> effect list" where
  "sfc_log_result final_result =
     (if py_in (ustr ''did not find any integrity violations'') (py_lower final_result)
      then [LogInfo (ustr ''SFC Result: No integrity violations found'')]
      else if py_in (ustr ''found corrupt files and successfully repaired'')
                (py_lower final_result)
      then [LogInfo (ustr ''SFC Result: Found and repaired corrupt files'')]
      else if py_in (ustr ''found corrupt files but was unable to fix'')
                (py_lower final_result)
      then [LogInfo (ustr ''SFC Result: Found corrupt files but could not repair'')]
      else if py_strip final_result \<noteq> []
      then [LogInfo (ustr ''SFC Result: '' @ take 200 (py_strip final_result))]
      else [])"

text \<open>The body of the \<open>try\<close> (lines 207 to 281).\<close>

definition sfc_try :: "8 word world \<Rightarrow> (exn + bool) \<times> 8 word world" where
  "sfc_try w0 =
     (let (spawned, w1) = popen w0
      in case spawned of
           Inl e \<Rightarrow> (Inl e, w1)
         | Inr c \<Rightarrow>
             let w2 = emit [Print (10 # ustr ''SFC Output:''), Print (replicate 50 45)] w1;
                 (r, st, fx) = sfc_read_loop (str_capacity w0) c (reads_of_1024 (reads c))
                                 \<lparr>last_percent = - 1, result_buffer = []\<rparr>;
                 w3 = emit fx w2
             in case r of
                  Inl e \<Rightarrow> (Inl e, w3)
                | Inr rc \<Rightarrow>
                    let (lines_fx, final_result) =
                          (if result_buffer st \<noteq> []
                           then sfc_final_lines (py_split 10 (result_buffer st))
                           else ([], []));
                        w4 = emit (Print [] # lines_fx) w3
                    in case popen_wait 1800 c rc of
                         Inl e \<Rightarrow> (Inl e, w4)
                       | Inr return_code \<Rightarrow>
                           (Inr (return_code = 0),
                            emit ([Print (replicate 50 45),
                                   Print (ustr ''Completed with return code: ''
                                          @ py_str_int return_code),
                                   LogInfo (ustr ''SFC completed with return code: ''
                                            @ py_str_int return_code)]
                                  @ sfc_log_result final_result) w4))"



section \<open>Observations used in the statements\<close>

text \<open>A progress value inside the inclusive range of the pause notice (line 132).\<close>

definition in_pause_range :: "pyfloat \<Rightarrow> bool" where
  "in_pause_range p = (float_le (Fin 62) p \<and> float_le p (Fin 63))"


text \<open>
  A repair that prints one line, runs for two hours and exits with code 0; a file check
  that prints nothing, runs for one hour and exits with code 0.
\<close>

definition slow_dism_child :: "nat child" where
  "slow_dism_child =
     \<lparr>reads = [Read (ustr ''The operation completed successfully.'' @ [10])],
      exit_code = 0, run_seconds = 7200\<rparr>"

definition slow_dism_world :: "nat world" where
  "slow_dism_world =
     \<lparr>dism_path = ustr ''dism.exe'', spawns = (\<lambda>_. Spawned slow_dism_child),
      popen_calls = 0, trace = [], str_capacity = 2 ^ 30\<rparr>"

definition slow_sfc_child :: "8 word child" where
  "slow_sfc_child = \<lparr>reads = [], exit_code = 0, run_seconds = 3600\<rparr>"

definition slow_sfc_world :: "8 word world" where
  "slow_sfc_world =
     \<lparr>dism_path = ustr ''dism.exe'', spawns = (\<lambda>_. Spawned slow_sfc_child),
      popen_calls = 0, trace = [], str_capacity = 2 ^ 30\<rparr>"







section \<open>Verified properties\<close>

subsection \<open>The three notices\<close>

lemma progress_steps_concat: "concat (progress_steps ps st) = fst (feed_progress ps st)"
  by (induction ps arbitrary: st) (simp_all add: split_beta Let_def)

lemma notices_apart:
  "set pause_notice \<inter> set passed_65_notice = {}"
  "set pause_notice \<inter> set at_90_notice = {}"
  "set passed_65_notice \<inter> set at_90_notice = {}"
  by (simp_all add: pause_notice_def passed_65_notice_def at_90_notice_def ustr_def)

lemma filter_own: "filter (\<lambda>e. e \<in> set xs) xs = xs"
  by simp

lemma filter_other: "set xs \<inter> set ys = {} \<Longrightarrow> filter (\<lambda>e. e \<in> set xs) ys = []"
  by (auto simp: filter_empty_conv)

lemma pause_range_below_65: "in_pause_range p \<Longrightarrow> \<not> float_le (Fin 65) p"
  by (cases p) (auto simp: in_pause_range_def)

lemma progress_update_effects:
  "fst (progress_update p st) =
     (if in_pause_range p \<and> \<not> pause_notified st then pause_notice
      else if float_le (Fin 65) p
              \<and> (\<exists>l. last_progress st = Some l \<and> l \<noteq> Fin 0 \<and> float_lt l (Fin 65))
      then passed_65_notice
      else if float_le (Fin 90) p
              \<and> (\<exists>l. last_progress st = Some l \<and> l \<noteq> Fin 0 \<and> float_lt l (Fin 90))
      then at_90_notice
      else [])"
  by (auto simp: progress_update_def in_pause_range_def float_truthy_def split: option.splits)

lemma pause_notified_update:
  "pause_notified (snd (progress_update p st)) = (pause_notified st \<or> in_pause_range p)"
  by (auto simp: progress_update_def in_pause_range_def)

lemma last_progress_update: "last_progress (snd (progress_update p st)) = Some p"
  by (simp add: progress_update_def)

subsection \<open>The pause notice\<close>

lemma pause_notice_feed:
  "filter (\<lambda>e. e \<in> set pause_notice) (fst (feed_progress ps st)) =
     (if \<not> pause_notified st \<and> (\<exists>p \<in> set ps. in_pause_range p) then pause_notice else [])"
proof (induction ps arbitrary: st)
  case Nil
  show ?case by simp
next
  case (Cons p ps)
  have c: "filter (\<lambda>e. e \<in> set pause_notice) (fst (progress_update p st)) =
             (if in_pause_range p \<and> \<not> pause_notified st then pause_notice else [])"
    using filter_other [OF notices_apart(1)] filter_other [OF notices_apart(2)]
    by (simp add: progress_update_effects)
  show ?case
    using Cons.IH [of "snd (progress_update p st)"] c
    by (auto simp: split_beta Let_def pause_notified_update)
qed

text \<open>
  Claim C4. Fed a sequence of progress values from the state a run starts with, the
  interpreter prints and logs the explanatory block of the component store analysis
  exactly once, line for line, when some value lies in the inclusive range from 62.0 to
  63.0, and none of its lines when no value does; this holds for every sequence, the
  non-decreasing ones among them. Once \<open>pause_notified\<close> is set no line of the block is
  emitted again.
\<close>

theorem pause_notice_exactly_once:
  "(let block =
          [Print (10 # replicate 55 61),
           Print (ustr ''  [NORMAL] Component Store Analysis Phase''),
           Print (ustr ''  DISM is checking thousands of system files.''),
           Print (ustr ''  This typically takes 10-20 minutes.''),
           Print (ustr ''  DO NOT interrupt - progress will resume.''),
           Print (replicate 55 61 @ [10]),
           LogInfo (ustr ''DISM 62.3% component store analysis phase'')]
    in filter (\<lambda>e. e \<in> set block) (fst (feed_progress ps fresh_locals)) =
         (if \<exists>p \<in> set ps. in_pause_range p then block else [])
       \<and> (pause_notified st \<longrightarrow>
            filter (\<lambda>e. e \<in> set block) (fst (feed_progress ps st)) = []))"
  using pause_notice_feed [of ps fresh_locals] pause_notice_feed [of ps st]
  unfolding pause_notice_def Let_def
  by (simp add: fresh_locals_def)

theorem pause_notice_exactly_once_witness:
  "filter (\<lambda>e. e \<in> set
        [Print (10 # replicate 55 61),
         Print (ustr ''  [NORMAL] Component Store Analysis Phase''),
         Print (ustr ''  DISM is checking thousands of system files.''),
         Print (ustr ''  This typically takes 10-20 minutes.''),
         Print (ustr ''  DO NOT interrupt - progress will resume.''),
         Print (replicate 55 61 @ [10]),
         LogInfo (ustr ''DISM 62.3% component store analysis phase'')])
     (fst (feed_progress [Fin 10, Fin (125 / 2), Fin (627 / 10), Fin 70] fresh_locals))
     = [Print (10 # replicate 55 61),
        Print (ustr ''  [NORMAL] Component Store Analysis Phase''),
        Print (ustr ''  DISM is checking thousands of system files.''),
        Print (ustr ''  This typically takes 10-20 minutes.''),
        Print (ustr ''  DO NOT interrupt - progress will resume.''),
        Print (replicate 55 61 @ [10]),
        LogInfo (ustr ''DISM 62.3% component store analysis phase'')]
   \<and> filter (\<lambda>e. e \<in> set
        [Print (10 # replicate 55 61),
         Print (ustr ''  [NORMAL] Component Store Analysis Phase''),
         Print (ustr ''  DISM is checking thousands of system files.''),
         Print (ustr ''  This typically takes 10-20 minutes.''),
         Print (ustr ''  DO NOT interrupt - progress will resume.''),
         Print (replicate 55 61 @ [10]),
         LogInfo (ustr ''DISM 62.3% component store analysis phase'')])
     (fst (feed_progress [Fin 10, Fin 61, Fin 64] fresh_locals)) = []
   \<and> pause_notified (fresh_locals\<lparr>pause_notified := True\<rparr>)
   \<and> filter (\<lambda>e. e \<in> set
        [Print (10 # replicate 55 61),
         Print (ustr ''  [NORMAL] Component Store Analysis Phase''),
         Print (ustr ''  DISM is checking thousands of system files.''),
         Print (ustr ''  This typically takes 10-20 minutes.''),
         Print (ustr ''  DO NOT interrupt - progress will resume.''),
         Print (replicate 55 61 @ [10]),
         LogInfo (ustr ''DISM 62.3% component store analysis phase'')])
     (fst (feed_progress [Fin (125 / 2)] (fresh_locals\<lparr>pause_notified := True\<rparr>))) = []"
proof -
  have r: "(\<exists>p \<in> set [Fin 10, Fin (125 / 2), Fin (627 / 10), Fin 70]. in_pause_range p)"
    "\<not> (\<exists>p \<in> set [Fin 10, Fin 61, Fin 64]. in_pause_range p)"
    "pause_notified (fresh_locals\<lparr>pause_notified := True\<rparr>)"
    by (simp_all add: in_pause_range_def)
  show ?thesis
    using r
      pause_notice_exactly_once [of "[Fin 10, Fin (125 / 2), Fin (627 / 10), Fin 70]"
        "fresh_locals\<lparr>pause_notified := True\<rparr>"]
      pause_notice_exactly_once [of "[Fin 10, Fin 61, Fin 64]"
        "fresh_locals\<lparr>pause_notified := True\<rparr>"]
      pause_notice_exactly_once [of "[Fin (125 / 2)]"
        "fresh_locals\<lparr>pause_notified := True\<rparr>"]
    unfolding Let_def
    by presburger
qed

subsection \<open>The scenario of six values\<close>

text \<open>
  Claim C5. Fed the values 10, 40, 62.5, 64, 66 and 91 from the state a run starts with,
  the interpreter emits nothing at 10 and at 40, the explanatory block of the pause at
  62.5, nothing at 64, the message and the log record of passing 65 at 66, and the
  message and the log record of reaching 90 at 91: each notice once, in that order, and
  nothing else.
\<close>

theorem sequence_scenario:
  "progress_steps [Fin 10, Fin 40, Fin (125 / 2), Fin 64, Fin 66, Fin 91] fresh_locals =
     [[], [],
      [Print (10 # replicate 55 61),
       Print (ustr ''  [NORMAL] Component Store Analysis Phase''),
       Print (ustr ''  DISM is checking thousands of system files.''),
       Print (ustr ''  This typically takes 10-20 minutes.''),
       Print (ustr ''  DO NOT interrupt - progress will resume.''),
       Print (replicate 55 61 @ [10]),
       LogInfo (ustr ''DISM 62.3% component store analysis phase'')],
      [],
      [Print (ustr ''[PROGRESS] Component check complete - continuing...''),
       LogInfo (ustr ''DISM passed 65%'')],
      [Print (ustr ''[PROGRESS] Nearly complete...''),
       LogInfo (ustr ''DISM at 90%'')]]
   \<and> fst (feed_progress [Fin 10, Fin 40, Fin (125 / 2), Fin 64, Fin 66, Fin 91] fresh_locals) =
       [Print (10 # replicate 55 61),
        Print (ustr ''  [NORMAL] Component Store Analysis Phase''),
        Print (ustr ''  DISM is checking thousands of system files.''),
        Print (ustr ''  This typically takes 10-20 minutes.''),
        Print (ustr ''  DO NOT interrupt - progress will resume.''),
        Print (replicate 55 61 @ [10]),
        LogInfo (ustr ''DISM 62.3% component store analysis phase''),
        Print (ustr ''[PROGRESS] Component check complete - continuing...''),
        LogInfo (ustr ''DISM passed 65%''),
        Print (ustr ''[PROGRESS] Nearly complete...''),
        LogInfo (ustr ''DISM at 90%'')]"
  by (simp add: progress_update_def fresh_locals_def float_truthy_def
      pause_notice_def passed_65_notice_def at_90_notice_def)

subsection \<open>The notice of passing 65\<close>

lemma float_le_trans: "float_le a b \<Longrightarrow> float_le b c \<Longrightarrow> float_le a c"
  by (cases a; cases b; cases c) auto

lemma passed_65_notice_filter:
  "filter (\<lambda>e. e \<in> set passed_65_notice) (fst (progress_update p st)) =
     (if float_le (Fin 65) p
         \<and> (\<exists>l. last_progress st = Some l \<and> l \<noteq> Fin 0 \<and> float_lt l (Fin 65))
      then passed_65_notice else [])"
proof -
  have a: "filter (\<lambda>e. e \<in> set passed_65_notice) pause_notice = []"
    using notices_apart(1) by (auto simp: filter_empty_conv)
  have b: "filter (\<lambda>e. e \<in> set passed_65_notice) at_90_notice = []"
    using notices_apart(3) by (auto simp: filter_empty_conv)
  show ?thesis
    using a b pause_range_below_65 [of p] by (auto simp: progress_update_effects)
qed

lemma passed_65_silent_above:
  assumes "\<forall>p \<in> set ps. float_le (Fin 65) p"
    and "\<exists>l. last_progress st = Some l \<and> float_le (Fin 65) l"
  shows "filter (\<lambda>e. e \<in> set passed_65_notice) (fst (feed_progress ps st)) = []"
  using assms
proof (induction ps arbitrary: st)
  case Nil
  show ?case by simp
next
  case (Cons p ps)
  from Cons.prems(2) obtain l where l: "last_progress st = Some l" "float_le (Fin 65) l"
    by blast
  have nl: "\<not> float_lt l (Fin 65)" using l(2) by (cases l) auto
  have c: "filter (\<lambda>e. e \<in> set passed_65_notice) (fst (progress_update p st)) = []"
    using l(1) nl by (simp add: passed_65_notice_filter)
  have "float_le (Fin 65) p" using Cons.prems(1) by simp
  then have "filter (\<lambda>e. e \<in> set passed_65_notice)
               (fst (feed_progress ps (snd (progress_update p st)))) = []"
    using Cons.IH [of "snd (progress_update p st)"] Cons.prems(1)
    by (simp add: last_progress_update)
  then show ?case using c by (simp add: split_beta Let_def)
qed

lemma passed_65_at_most_once:
  assumes "sorted_wrt float_le ps"
  shows "filter (\<lambda>e. e \<in> set passed_65_notice) (fst (feed_progress ps st)) = []
         \<or> filter (\<lambda>e. e \<in> set passed_65_notice) (fst (feed_progress ps st)) = passed_65_notice"
  using assms
proof (induction ps arbitrary: st)
  case Nil
  show ?case by simp
next
  case (Cons p ps)
  have sorted: "sorted_wrt float_le ps" and above: "\<forall>y \<in> set ps. float_le p y"
    using Cons.prems by simp_all
  show ?case
  proof (cases "float_le (Fin 65) p")
    case True
    then have "\<forall>y \<in> set ps. float_le (Fin 65) y"
      using above float_le_trans by blast
    then have "filter (\<lambda>e. e \<in> set passed_65_notice)
                 (fst (feed_progress ps (snd (progress_update p st)))) = []"
      using passed_65_silent_above [of ps "snd (progress_update p st)"] True
      by (simp add: last_progress_update)
    then show ?thesis
      by (simp add: split_beta Let_def passed_65_notice_filter)
  next
    case False
    then have "filter (\<lambda>e. e \<in> set passed_65_notice) (fst (progress_update p st)) = []"
      by (simp add: passed_65_notice_filter)
    then show ?thesis
      using Cons.IH [OF sorted, of "snd (progress_update p st)"]
      by (simp add: split_beta Let_def)
  qed
qed

text \<open>
  Claim C1, as amended. An update emits the message of passing 65 only when the new value
  is at least 65.0 and a previous value is stored and lies below 65.0; when that holds
  and the stored value is not 0.0, the update emits the message and its log record, and
  nothing else. A first value of 65.0 or more, with nothing stored, emits nothing. Over a
  sequence in non-decreasing order, from any state, the message and the log record are
  emitted once together or not at all.
\<close>

theorem passed_65_crossing:
  "(Print (ustr ''[PROGRESS] Component check complete - continuing...'')
        \<in> set (fst (progress_update p st))
      \<longrightarrow> float_le (Fin 65) p \<and> (\<exists>l. last_progress st = Some l \<and> float_lt l (Fin 65)))
   \<and> (float_le (Fin 65) p \<and> last_progress st = Some l \<and> float_lt l (Fin 65) \<and> l \<noteq> Fin 0
      \<longrightarrow> fst (progress_update p st) =
            [Print (ustr ''[PROGRESS] Component check complete - continuing...''),
             LogInfo (ustr ''DISM passed 65%'')])
   \<and> (float_le (Fin 65) p \<longrightarrow> fst (progress_update p fresh_locals) = [])
   \<and> (sorted_wrt float_le ps \<longrightarrow>
        filter (\<lambda>e. e \<in> {Print (ustr ''[PROGRESS] Component check complete - continuing...''),
                           LogInfo (ustr ''DISM passed 65%'')})
          (fst (feed_progress ps st))
        \<in> {[], [Print (ustr ''[PROGRESS] Component check complete - continuing...''),
                 LogInfo (ustr ''DISM passed 65%'')]})"
proof -
  have m: "Print (ustr ''[PROGRESS] Component check complete - continuing...'')
             \<in> set passed_65_notice"
    by (simp add: passed_65_notice_def)
  have one: "Print (ustr ''[PROGRESS] Component check complete - continuing...'')
               \<in> set (fst (progress_update p st))
             \<longrightarrow> float_le (Fin 65) p \<and> (\<exists>l. last_progress st = Some l \<and> float_lt l (Fin 65))"
  proof
    assume "Print (ustr ''[PROGRESS] Component check complete - continuing...'')
              \<in> set (fst (progress_update p st))"
    then have "Print (ustr ''[PROGRESS] Component check complete - continuing...'')
                 \<in> set (filter (\<lambda>e. e \<in> set passed_65_notice) (fst (progress_update p st)))"
      using m by simp
    then show "float_le (Fin 65) p \<and> (\<exists>l. last_progress st = Some l \<and> float_lt l (Fin 65))"
      unfolding passed_65_notice_filter by (auto split: if_splits)
  qed
  have two: "float_le (Fin 65) p \<and> last_progress st = Some l \<and> float_lt l (Fin 65) \<and> l \<noteq> Fin 0
      \<longrightarrow> fst (progress_update p st) =
            [Print (ustr ''[PROGRESS] Component check complete - continuing...''),
             LogInfo (ustr ''DISM passed 65%'')]"
    using pause_range_below_65 [of p]
    by (auto simp: progress_update_effects passed_65_notice_def)
  have three: "float_le (Fin 65) p \<longrightarrow> fst (progress_update p fresh_locals) = []"
    using pause_range_below_65 [of p]
    by (auto simp: progress_update_effects fresh_locals_def)
  have four: "sorted_wrt float_le ps \<longrightarrow>
        filter (\<lambda>e. e \<in> {Print (ustr ''[PROGRESS] Component check complete - continuing...''),
                           LogInfo (ustr ''DISM passed 65%'')})
          (fst (feed_progress ps st))
        \<in> {[], [Print (ustr ''[PROGRESS] Component check complete - continuing...''),
                 LogInfo (ustr ''DISM passed 65%'')]}"
    using passed_65_at_most_once [of ps st]
    by (simp add: passed_65_notice_def)
  show ?thesis using one two three four by blast
qed

theorem passed_65_crossing_witness:
  "Print (ustr ''[PROGRESS] Component check complete - continuing...'')
        \<in> set (fst (progress_update (Fin 66) (fresh_locals\<lparr>last_progress := Some (Fin 64)\<rparr>)))
   \<and> float_le (Fin 65) (Fin 66)
   \<and> last_progress (fresh_locals\<lparr>last_progress := Some (Fin 64)\<rparr>) = Some (Fin 64)
   \<and> float_lt (Fin 64) (Fin 65) \<and> Fin 64 \<noteq> Fin 0
   \<and> fst (progress_update (Fin 66) (fresh_locals\<lparr>last_progress := Some (Fin 64)\<rparr>)) =
        [Print (ustr ''[PROGRESS] Component check complete - continuing...''),
         LogInfo (ustr ''DISM passed 65%'')]
   \<and> float_le (Fin 65) (Fin 70)
   \<and> fst (progress_update (Fin 70) fresh_locals) = []
   \<and> sorted_wrt float_le [Fin 10, Fin 64, Fin 66, Fin 91]
   \<and> filter (\<lambda>e. e \<in> {Print (ustr ''[PROGRESS] Component check complete - continuing...''),
                        LogInfo (ustr ''DISM passed 65%'')})
        (fst (feed_progress [Fin 10, Fin 64, Fin 66, Fin 91] fresh_locals))
      \<in> {[], [Print (ustr ''[PROGRESS] Component check complete - continuing...''),
               LogInfo (ustr ''DISM passed 65%'')]}"
proof -
  have h: "float_le (Fin 65) (Fin 66)"
    "last_progress (fresh_locals\<lparr>last_progress := Some (Fin 64)\<rparr>) = Some (Fin 64)"
    "float_lt (Fin 64) (Fin 65)" "Fin 64 \<noteq> Fin 0" "float_le (Fin 65) (Fin 70)"
    "sorted_wrt float_le [Fin 10, Fin 64, Fin 66, Fin 91]"
    by simp_all
  have a: "fst (progress_update (Fin 66) (fresh_locals\<lparr>last_progress := Some (Fin 64)\<rparr>)) =
        [Print (ustr ''[PROGRESS] Component check complete - continuing...''),
         LogInfo (ustr ''DISM passed 65%'')]"
    using h passed_65_crossing [of "Fin 66" "fresh_locals\<lparr>last_progress := Some (Fin 64)\<rparr>"
        "Fin 64" "[]"]
    by blast
  have b: "fst (progress_update (Fin 70) fresh_locals) = []"
    using h passed_65_crossing [of "Fin 70" fresh_locals "Fin 64" "[]"] by blast
  have c: "filter (\<lambda>e. e \<in> {Print (ustr ''[PROGRESS] Component check complete - continuing...''),
                        LogInfo (ustr ''DISM passed 65%'')})
        (fst (feed_progress [Fin 10, Fin 64, Fin 66, Fin 91] fresh_locals))
      \<in> {[], [Print (ustr ''[PROGRESS] Component check complete - continuing...''),
               LogInfo (ustr ''DISM passed 65%'')]}"
    using h passed_65_crossing [of "Fin 66" fresh_locals "Fin 64"
        "[Fin 10, Fin 64, Fin 66, Fin 91]"]
    by blast
  show ?thesis using h a b c by simp
qed

text \<open>
  The claim as stated fails twice: after a drop the message is emitted again (10, 70, 10,
  70 emits it two times), and a stored previous value of 0.0 counts as absent (0, 70
  emits nothing).
\<close>

theorem passed_65_counterexample:
  "count_list (fst (feed_progress [Fin 10, Fin 70, Fin 10, Fin 70] fresh_locals))
     (Print (ustr ''[PROGRESS] Component check complete - continuing...'')) = 2
   \<and> fst (feed_progress [Fin 0, Fin 70] fresh_locals) = []"
  by (simp add: progress_update_def fresh_locals_def float_truthy_def passed_65_notice_def
      ustr_def)

subsection \<open>How a run ends\<close>

lemma dism_read_loop_completes:
  "\<forall>m. ReadFails m \<notin> set es \<Longrightarrow> fst (dism_read_loop r c es st) = Inr (Some (exit_code c))"
proof (induction es arbitrary: st)
  case Nil
  show ?case by simp
next
  case (Cons e es)
  then show ?case
    by (cases e) (auto simp: Let_def split_beta)
qed


lemma dism_read_loop_never_times_out:
  "fst (dism_read_loop r c es st) \<noteq> Inl TimeoutExpired
   \<and> fst (dism_read_loop r c es st) \<noteq> Inr None"
proof (induction es arbitrary: st)
  case Nil
  show ?case by simp
next
  case (Cons e es)
  then show ?case
    by (cases e) (auto simp: Let_def split_beta)
qed

lemma dism_try_completes:
  assumes "spawns w (popen_calls w) = Spawned c" and "\<forall>m. ReadFails m \<notin> set (reads c)"
  shows "\<exists>text. fst (dism_try a r cap w) = Inr (exit_code c = 0, if cap then Some text else None)"
proof -
  obtain x st fx where l: "dism_read_loop r c (reads c) fresh_locals = (x, st, fx)"
    by (cases "dism_read_loop r c (reads c) fresh_locals")
  have "x = Inr (Some (exit_code c))"
    using dism_read_loop_completes [OF assms(2), of r c fresh_locals] l by simp
  then show ?thesis
    using assms(1) l by (simp add: dism_try_def popen_def popen_wait_def emit_def Let_def)
qed

lemma dism_try_never_times_out: "fst (dism_try a r cap w) \<noteq> Inl TimeoutExpired"
proof (cases "spawns w (popen_calls w)")
  case (SpawnFails msg)
  then show ?thesis by (simp add: dism_try_def popen_def emit_def Let_def)
next
  case (Spawned c)
  obtain x st fx where l: "dism_read_loop r c (reads c) fresh_locals = (x, st, fx)"
    by (cases "dism_read_loop r c (reads c) fresh_locals")
  have "x \<noteq> Inl TimeoutExpired" "x \<noteq> Inr None"
    using dism_read_loop_never_times_out [of r c "reads c" fresh_locals] l by simp_all
  then show ?thesis
    using Spawned l
    by (auto simp: dism_try_def popen_def popen_wait_def emit_def Let_def
        split: sum.splits option.splits)
qed



lemma py_repeat_never_times_out: "py_repeat k ch n \<noteq> Inl TimeoutExpired"
  by (simp add: py_repeat_def)

lemma progress_bar_never_times_out: "progress_bar k p \<noteq> Inl TimeoutExpired"
  using py_repeat_never_times_out
  by (auto simp: progress_bar_def int_truediv_def Let_def split: pyfloat.splits sum.splits)

lemma sfc_read_loop_never_times_out:
  "fst (sfc_read_loop k c es st) \<noteq> Inl TimeoutExpired
   \<and> fst (sfc_read_loop k c es st) \<noteq> Inr None"
proof (induction k c es st rule: sfc_read_loop.induct)
  case (1 k c st)
  show ?case by simp
next
  case (2 k c msg es st)
  show ?case by simp
next
  case (3 k c chunk es st)
  then show ?case
    using progress_bar_never_times_out
    by (auto simp: Let_def split_beta split: option.splits sum.splits)
qed

lemma sfc_try_never_times_out: "fst (sfc_try w) \<noteq> Inl TimeoutExpired"
proof (cases "spawns w (popen_calls w)")
  case (SpawnFails msg)
  then show ?thesis by (simp add: sfc_try_def popen_def emit_def Let_def)
next
  case (Spawned c)
  obtain x st fx where l:
    "sfc_read_loop (str_capacity w) c (reads_of_1024 (reads c)) \<lparr>last_percent = - 1, result_buffer = []\<rparr> = (x, st, fx)"
    by (cases "sfc_read_loop (str_capacity w) c (reads_of_1024 (reads c)) \<lparr>last_percent = - 1, result_buffer = []\<rparr>")
  have "x \<noteq> Inl TimeoutExpired" "x \<noteq> Inr None"
    using sfc_read_loop_never_times_out
            [of "str_capacity w" c "reads_of_1024 (reads c)" "\<lparr>last_percent = - 1, result_buffer = []\<rparr>"] l by simp_all
  then show ?thesis
    using Spawned l
    by (auto simp: sfc_try_def popen_def popen_wait_def emit_def Let_def split_beta
        split: sum.splits option.splits)
qed

lemma run_dism_command_completes:
  assumes "spawns w (popen_calls w) = Spawned c" and "\<forall>m. ReadFails m \<notin> set (reads c)"
  shows "fst (fst (run_dism_command a r cap w)) = (exit_code c = 0)"
proof -
  obtain out where "fst (dism_try a r cap w) = Inr (exit_code c = 0, if cap then Some out else None)"
    using dism_try_completes [OF assms] by blast
  then show ?thesis
    by (cases "dism_try a r cap w") (simp add: run_dism_command_def)
qed

text \<open>
  C3. A run of the repair tool whose child prints its lines, lives longer than the hour
  of the timeout and exits is reported with the success flag of its exit code: the
  \<open>Timeout\<close> outcome is produced by neither runner, since \<open>wait\<close> is reached only after the
  read loop, which ends once \<open>poll()\<close> has recorded the exit code.
\<close>

theorem timeout_never_reported:
  assumes "spawns w (popen_calls w) = Spawned c"
      and "\<forall>m. ReadFails m \<notin> set (reads c)"
      and "3600 < run_seconds c"
  shows "fst (fst (run_dism_command a r cap w)) = (exit_code c = 0)
         \<and> fst (dism_try a r cap w) \<noteq> Inl TimeoutExpired
         \<and> fst (sfc_try v) \<noteq> Inl TimeoutExpired"
  using run_dism_command_completes [OF assms(1,2)] dism_try_never_times_out
        sfc_try_never_times_out
  by simp

theorem timeout_never_reported_witness:
  "3600 < run_seconds slow_dism_child
   \<and> exit_code slow_dism_child = 0
   \<and> fst (fst (run_dism_command [ustr ''/Online'', ustr ''/Cleanup-Image'', ustr ''/RestoreHealth'']
                  True False slow_dism_world))
   \<and> 1800 < run_seconds slow_sfc_child
   \<and> fst (sfc_try slow_sfc_world) = Inr True"
proof -
  have "spawns slow_dism_world (popen_calls slow_dism_world) = Spawned slow_dism_child"
    by (simp add: slow_dism_world_def)
  moreover have "\<forall>m. ReadFails m \<notin> set (reads slow_dism_child)"
    by (simp add: slow_dism_child_def)
  moreover have "3600 < run_seconds slow_dism_child"
    by (simp add: slow_dism_child_def)
  ultimately have
    "fst (fst (run_dism_command [ustr ''/Online'', ustr ''/Cleanup-Image'', ustr ''/RestoreHealth'']
                  True False slow_dism_world)) = (exit_code slow_dism_child = 0)"
    using timeout_never_reported by blast
  moreover have "fst (sfc_try slow_sfc_world) = Inr True"
    by (simp add: sfc_try_def popen_def popen_wait_def emit_def slow_sfc_world_def
        slow_sfc_child_def Let_def)
  ultimately show ?thesis
    by (simp add: slow_dism_child_def slow_sfc_child_def)
qed

subsection \<open>Exceptions\<close>



















subsection \<open>One run after another\<close>






end
